theory Spec2Isabelle
  imports Main
begin

section \<open>Go values as the reflect package sees them\<close>

text \<open>
  The conversion engine of package \<open>reflect\<close> (internal/reflect) inspects native Go
  values through the standard library's reflection. A \<open>reflect.Value\<close> is represented
  by the Go value it reflects together with its static type, so that
  \<open>reflect.ValueOf\<close> is the identity of the model. Types are structural.
\<close>

datatype go_kind = KBool | KInt | KFloat | KString | KPtr | KInterface | KSlice | KMap | KStruct

datatype go_type =
    TBool | TInt | TFloat | TString
  | TPtr go_type
  | TInterface
  | TSlice go_type
  | TMap go_type go_type
  | TStruct string "struct_field list"
and struct_field =
    StructField (Name: string) (PkgPath: string) (Tag: "(string \<times> string) list") (FieldType: go_type)

datatype go_value =
    VBool bool | VInt int | VFloat int | VString string
  | VPtr go_type "go_value option"
  | VIface "go_value option"
  | VSlice go_type "go_value list option"
  | VMap go_type go_type "(go_value \<times> go_value) list option"
  | VStruct string "struct_field list" "go_value list"

text \<open>A panic of the Go runtime, and the outcome of a call that may panic.\<close>

datatype panic =
    NilDereference
  | IndexOutOfRange
  | ReflectKindMismatch
  | ReflectNotAssignable
  | NewValueInvalid

datatype 'a outcome = Panic panic | Return 'a

fun Kind :: "go_type \<Rightarrow> go_kind" where
  "Kind TBool = KBool"
| "Kind TInt = KInt"
| "Kind TFloat = KFloat"
| "Kind TString = KString"
| "Kind (TPtr t) = KPtr"
| "Kind TInterface = KInterface"
| "Kind (TSlice t) = KSlice"
| "Kind (TMap k e) = KMap"
| "Kind (TStruct n fs) = KStruct"

text \<open>\<open>v.Type()\<close>: the static type of a reflected value.\<close>

fun TypeOf :: "go_value \<Rightarrow> go_type" where
  "TypeOf (VBool b) = TBool"
| "TypeOf (VInt i) = TInt"
| "TypeOf (VFloat f) = TFloat"
| "TypeOf (VString s) = TString"
| "TypeOf (VPtr t p) = TPtr t"
| "TypeOf (VIface d) = TInterface"
| "TypeOf (VSlice t xs) = TSlice t"
| "TypeOf (VMap k e m) = TMap k e"
| "TypeOf (VStruct n fs vs) = TStruct n fs"

text \<open>\<open>reflect.Zero(t)\<close>.\<close>

fun Zero :: "go_type \<Rightarrow> go_value" and ZeroField :: "struct_field \<Rightarrow> go_value" where
  "Zero TBool = VBool False"
| "Zero TInt = VInt 0"
| "Zero TFloat = VFloat 0"
| "Zero TString = VString []"
| "Zero (TPtr t) = VPtr t None"
| "Zero TInterface = VIface None"
| "Zero (TSlice t) = VSlice t None"
| "Zero (TMap k e) = VMap k e None"
| "Zero (TStruct n fs) = VStruct n fs (map ZeroField fs)"
| "ZeroField (StructField n p tg t) = Zero t"

text \<open>
  helpers.go, \<open>trueReflectValue\<close>: follow pointers and interfaces down to the concrete
  value. \<open>Elem\<close> of a nil pointer or nil interface is the zero \<open>reflect.Value\<close>, whose
  \<open>Type()\<close> panics. \<open>getStructTags\<close> applies it to a native value, \<open>Map\<close> to the reflected
  target.
\<close>

fun trueReflectValue :: "go_value \<Rightarrow> go_value outcome" where
  "trueReflectValue (VPtr t None) = Panic NilDereference"
| "trueReflectValue (VPtr t (Some v)) = trueReflectValue v"
| "trueReflectValue (VIface None) = Panic NilDereference"
| "trueReflectValue (VIface (Some v)) = trueReflectValue v"
| "trueReflectValue v = Return v"

section \<open>Paths and errors\<close>

datatype step = AttributeName string | ElementKeyString string | ElementKeyInt int

type_synonym path = "step list"

definition WithAttributeName :: "path \<Rightarrow> string \<Rightarrow> path" where
  "WithAttributeName p name = p @ [AttributeName name]"

definition WithElementKeyString :: "path \<Rightarrow> string \<Rightarrow> path" where
  "WithElementKeyString p key = p @ [ElementKeyString key]"

text \<open>The type descriptors of package tftypes.\<close>

datatype tf_type =
    TfBool | TfNumber | TfString | TfDynamic
  | TfList tf_type
  | TfMap tf_type
  | TfObject "(string \<times> tf_type) list"

text \<open>
  Go errors. Each \<open>fmt.Errorf\<close> of the sources is a constructor carrying the arguments
  of its format string (a Go type for \<open>%T\<close> of a native value, the name of the Go type
  for \<open>%T\<close> of an \<open>attr.Type\<close>); errors raised by collaborators are \<open>ErrOther\<close>.
\<close>

datatype go_error =
    ErrOther string
  | ErrPath path go_error
  | ErrNotAStruct go_type
  | ErrNeedStructTag string
  | ErrInvalidFieldName
  | ErrFieldNameForBoth string string
  | ErrExpectedMapType go_type
  | ErrMustBeMap tf_type
  | ErrMustBeTypeWithElementType string
  | ErrMapKeysMustBeStrings go_type
  | ErrCannotFindMethod string go_type
  | ErrCouldNotFindMethod string go_type
  | ErrUnknownErrorType go_value
  | ErrReflection go_error

section \<open>Structure metadata (helpers.go)\<close>

text \<open>\<open>field.Tag.Get(key)\<close>: the value of the key, or the empty string.\<close>

definition TagGet :: "(string \<times> string) list \<Rightarrow> string \<Rightarrow> string" where
  "TagGet tg key = (case map_of tg key of None \<Rightarrow> [] | Some v \<Rightarrow> v)"

definition is_lower :: "char \<Rightarrow> bool" where
  "is_lower c = (97 \<le> (of_char c :: nat) \<and> (of_char c :: nat) \<le> 122)"

definition is_digit :: "char \<Rightarrow> bool" where
  "is_digit c = (48 \<le> (of_char c :: nat) \<and> (of_char c :: nat) \<le> 57)"

definition is_upper :: "char \<Rightarrow> bool" where
  "is_upper c = (65 \<le> (of_char c :: nat) \<and> (of_char c :: nat) \<le> 90)"

text \<open>\<open>isValidFieldName\<close>: the regular expression \<open>^[a-z][a-z0-9_]*$\<close> on the whole name.\<close>

fun isValidFieldName :: "string \<Rightarrow> bool" where
  "isValidFieldName [] = False"
| "isValidFieldName (c # cs) =
     (is_lower c \<and> list_all (\<lambda>d. is_lower d \<or> is_digit d \<or> d = CHR ''_'') cs)"

text \<open>\<open>field.Tag.Get(`tfsdk`)\<close>\<close>

definition tagOf :: "struct_field \<Rightarrow> string" where
  "tagOf f = TagGet (Tag f) ''tfsdk''"

text \<open>
  The loop of \<open>getStructTags\<close> over the field indices \<open>i, i+1, ...\<close> of the struct type,
  with the map of tags built so far.
\<close>

function getStructTags_loop ::
  "struct_field list \<Rightarrow> path \<Rightarrow> nat \<Rightarrow> (string \<rightharpoonup> nat) \<Rightarrow> go_error + (string \<rightharpoonup> nat)" where
  "getStructTags_loop fs path i tags =
     (if i < length fs then
        (let field = fs ! i in
         if PkgPath field \<noteq> [] then getStructTags_loop fs path (i + 1) tags
         else let tag = tagOf field in
           if tag = ''-'' then getStructTags_loop fs path (i + 1) tags
           else if tag = [] then Inl (ErrPath path (ErrNeedStructTag (Name field)))
           else let path' = WithAttributeName path tag in
             if \<not> isValidFieldName tag then Inl (ErrPath path' ErrInvalidFieldName)
             else (case tags tag of
                     Some other \<Rightarrow> Inl (ErrPath path' (ErrFieldNameForBoth (Name (fs ! other)) (Name field)))
                   | None \<Rightarrow> getStructTags_loop fs path (i + 1) (tags(tag \<mapsto> i))))
      else Inr tags)"
  by pat_completeness auto
termination
  by (relation "measure (\<lambda>(fs, path, i, tags). length fs - i)") auto

declare getStructTags_loop.simps [simp del]

definition getStructTags :: "go_value \<Rightarrow> path \<Rightarrow> (go_error + (string \<rightharpoonup> nat)) outcome" where
  "getStructTags inp path =
     (case trueReflectValue inp of
        Panic p \<Rightarrow> Panic p
      | Return v \<Rightarrow>
          (case TypeOf v of
             TStruct n fs \<Rightarrow> Return (getStructTags_loop fs path 0 Map.empty)
           | _ \<Rightarrow> Return (Inl (ErrPath path (ErrNotAStruct (TypeOf inp))))))"

section \<open>Raw transport values (package tftypes)\<close>

text \<open>
  A \<open>tftypes.Value\<close> is a type and a Go payload: \<open>nil\<close> for null, the unknown marker, or
  a concrete payload. The zero \<open>tftypes.Value{}\<close> has no type. \<open>RawOther\<close> stands for a
  Go value of a type that \<open>tftypes.NewValue\<close> never accepts.
\<close>

datatype tf_value = TfValue (tf_typ: "tf_type option") (tf_payload: tf_raw)
and tf_raw =
    RawNil
  | RawUnknown
  | RawBool bool
  | RawNumber int
  | RawString string
  | RawList "tf_value list"
  | RawMap "string \<Rightarrow> tf_value option"
  | RawOther go_value

definition tf_zero :: tf_value where
  "tf_zero = TfValue None RawNil"

definition IsKnown :: "tf_value \<Rightarrow> bool" where
  "IsKnown v = (tf_payload v \<noteq> RawUnknown)"

definition IsNull :: "tf_value \<Rightarrow> bool" where
  "IsNull v = (tf_payload v = RawNil)"

text \<open>\<open>t.Is(tftypes.Map{})\<close>: is the type a map type, whatever its element type.\<close>

fun IsMapType :: "tf_type \<Rightarrow> bool" where
  "IsMapType (TfMap e) = True"
| "IsMapType t = False"

text \<open>
  \<open>tftypes.ValidateValue(t, raw)\<close> and \<open>tftypes.NewValue(t, raw)\<close> run the same check
  of the library: null and unknown are accepted for every type, and a concrete payload
  is checked against the type. \<open>NewValue\<close> panics exactly when \<open>ValidateValue\<close>
  returns an error. The check of a concrete payload is the parameter \<open>vv\<close>.
\<close>

definition ValidateValue :: "(tf_type \<Rightarrow> tf_raw \<Rightarrow> go_error option) \<Rightarrow> tf_type \<Rightarrow> tf_raw \<Rightarrow> go_error option" where
  "ValidateValue vv t raw = (if raw = RawNil \<or> raw = RawUnknown then None else vv t raw)"

definition NewValue :: "(tf_type \<Rightarrow> tf_raw \<Rightarrow> go_error option) \<Rightarrow> tf_type \<Rightarrow> tf_raw \<Rightarrow> tf_value outcome" where
  "NewValue vv t raw =
     (case ValidateValue vv t raw of
        Some e \<Rightarrow> Panic NewValueInvalid
      | None \<Rightarrow> Return (TfValue (Some t) raw))"

fun obind :: "'a outcome \<Rightarrow> ('a \<Rightarrow> 'b outcome) \<Rightarrow> 'b outcome" where
  "obind (Panic p) f = Panic p"
| "obind (Return x) f = f x"

section \<open>Attribute types, attribute values and diagnostics (packages attr, diag)\<close>

text \<open>
  \<open>attr.Type\<close> and \<open>attr.Value\<close> are interfaces; an implementation is the record of its
  methods. The optional interfaces \<open>attr.TypeWithValidate\<close> and
  \<open>attr.TypeWithElementType\<close> are optional fields. \<open>GoValue\<close> is the Go value that
  implements \<open>attr.Value\<close>, as \<open>reflect.ValueOf\<close> and \<open>reflect.TypeOf\<close> see it.
  Of the Type of a value the sources read the raw shape only:
  \<open>TypeTerraformType val\<close> is \<open>val.Type(ctx).TerraformType(ctx)\<close>.
  The detail text of the conversion diagnostics is the fixed sentence
  "An unexpected error was encountered trying to \<open>what\<close>. This is always an error in the
  provider. Please report the following to the provider developer:" followed by the
  error; \<open>ProviderBug what err\<close> stands for it.
\<close>

datatype severity = SeverityError | SeverityWarning

datatype detail = ProviderBug string go_error

datatype attr_value =
    AttrValue (TypeTerraformType: tf_type) (ToTerraformValue: "go_error + tf_raw") (GoValue: go_value)

datatype attr_type =
    AttrType (TypeName: string)
             (TerraformType: tf_type)
             (ValueFromTerraform: "tf_value \<Rightarrow> go_error + attr_value option")
             (Validate: "(tf_value \<Rightarrow> path \<Rightarrow> diagnostic list) option")
             (ElementType: "attr_type option")
and diagnostic =
    Diag severity string string "path option"
  | AttributeErrorDiagnostic path string detail
  | DiagIntoIncompatibleType tf_value go_type path go_error
  | DiagNewAttributeValueIntoWrongType "go_type option" go_type attr_type path

fun Severity :: "diagnostic \<Rightarrow> severity" where
  "Severity (Diag s summary d p) = s"
| "Severity (AttributeErrorDiagnostic p summary d) = SeverityError"
| "Severity (DiagIntoIncompatibleType v t p e) = SeverityError"
| "Severity (DiagNewAttributeValueIntoWrongType vt tt st p) = SeverityError"

fun DiagPath :: "diagnostic \<Rightarrow> path option" where
  "DiagPath (Diag s summary d p) = p"
| "DiagPath (AttributeErrorDiagnostic p summary d) = Some p"
| "DiagPath (DiagIntoIncompatibleType v t p e) = Some p"
| "DiagPath (DiagNewAttributeValueIntoWrongType vt tt st p) = Some p"

text \<open>
  Modelled from the spec: the methods of \<open>diag.Diagnostics\<close> (package diag is not among
  the sources). Section 4.2: \<open>append\<close> adds to the end, preserving order; \<open>has_error\<close>
  is true iff any element has error severity.
\<close>

definition Append :: "diagnostic list \<Rightarrow> diagnostic list \<Rightarrow> diagnostic list" where
  "Append diags new = diags @ new"

definition HasError :: "diagnostic list \<Rightarrow> bool" where
  "HasError diags = list_ex (\<lambda>d. Severity d = SeverityError) diags"

definition AddAttributeError :: "diagnostic list \<Rightarrow> path \<Rightarrow> string \<Rightarrow> detail \<Rightarrow> diagnostic list" where
  "AddAttributeError diags p summary d = Append diags [AttributeErrorDiagnostic p summary d]"

text \<open>diags.go\<close>

definition toTerraform5ValueErrorDiag :: "go_error \<Rightarrow> path \<Rightarrow> diagnostic" where
  "toTerraform5ValueErrorDiag err p =
     AttributeErrorDiagnostic p ''Value Conversion Error''
       (ProviderBug ''convert into a Terraform value'' err)"

definition toTerraformValueErrorDiag :: "go_error \<Rightarrow> path \<Rightarrow> diagnostic" where
  "toTerraformValueErrorDiag err p =
     AttributeErrorDiagnostic p ''Value Conversion Error''
       (ProviderBug ''convert the Attribute value into a Terraform value'' err)"

definition validateValueErrorDiag :: "go_error \<Rightarrow> path \<Rightarrow> diagnostic" where
  "validateValueErrorDiag err p =
     AttributeErrorDiagnostic p ''Value Conversion Error''
       (ProviderBug ''validate the Terraform value type'' err)"

definition valueFromTerraformErrorDiag :: "go_error \<Rightarrow> path \<Rightarrow> diagnostic" where
  "valueFromTerraformErrorDiag err p =
     AttributeErrorDiagnostic p ''Value Conversion Error''
       (ProviderBug ''convert the Terraform value'' err)"

section \<open>Collaborators that are not among the sources\<close>

text \<open>
  The arguments and the first result of a method called through reflection
  (\<open>results[0].Interface()\<close>): nil, an error, or a value of another type.
\<close>

datatype go_arg = ArgBool bool | ArgTfValue tf_value

datatype iface_result = INil | IError go_error | IOther go_value

text \<open>
  The functions the converters call and that are defined elsewhere are parameters:
  \<^item> \<open>checkPayload\<close>: the library's check of a concrete payload against a type;
  \<^item> \<open>AsMap\<close>: \<open>val.As(&values)\<close> for a \<open>map[string]tftypes.Value\<close>, the entries listed in
    the order in which \<open>range\<close> iterates over them;
  \<^item> \<open>BuildValue\<close> (into.go) and \<open>FromValue\<close> (outof.go), the recursive entry points;
    the context and the options are handed on unchanged and left out;
  \<^item> \<open>pointerSafeZeroValue\<close> (pointer.go);
  \<^item> \<open>MethodByName\<close>: the method of that name of a Go value, if it has one; calling it
    yields its results and the receiver as the call leaves it.
\<close>

record deps =
  checkPayload :: "tf_type \<Rightarrow> tf_raw \<Rightarrow> go_error option"
  AsMap :: "tf_value \<Rightarrow> go_error + (string \<times> tf_value) list"
  BuildValue :: "attr_type \<Rightarrow> tf_value \<Rightarrow> go_value \<Rightarrow> path \<Rightarrow> go_value \<times> diagnostic list"
  FromValue :: "attr_type \<Rightarrow> go_value \<Rightarrow> path \<Rightarrow> attr_value option \<times> diagnostic list"
  pointerSafeZeroValue :: "go_value \<Rightarrow> go_value"
  MethodByName :: "go_value \<Rightarrow> string \<Rightarrow> (go_arg list \<Rightarrow> iface_result list \<times> go_value) option"

section \<open>Reflection on maps\<close>

text \<open>\<open>v.IsNil()\<close> panics unless the kind is pointer, interface, slice or map.\<close>

fun IsNil :: "go_value \<Rightarrow> bool outcome" where
  "IsNil (VPtr t p) = Return (p = None)"
| "IsNil (VIface d) = Return (d = None)"
| "IsNil (VSlice t xs) = Return (xs = None)"
| "IsNil (VMap k e m) = Return (m = None)"
| "IsNil v = Panic ReflectKindMismatch"

text \<open>
  A value can be stored where its type is expected, or in an empty interface;
  anything else makes reflection panic.
\<close>

definition assignTo :: "go_value \<Rightarrow> go_type \<Rightarrow> go_value outcome" where
  "assignTo v t =
     (if TypeOf v = t then Return v
      else if t = TInterface then Return (VIface (Some v))
      else Panic ReflectNotAssignable)"

fun setEntry :: "go_value \<Rightarrow> go_value \<Rightarrow> (go_value \<times> go_value) list \<Rightarrow> (go_value \<times> go_value) list" where
  "setEntry k v [] = [(k, v)]"
| "setEntry k v ((k', v') # es) = (if k' = k then (k, v) # es else (k', v') # setEntry k v es)"

text \<open>\<open>reflect.MakeMapWithSize(t, n)\<close>: an empty, non-nil map of type \<open>t\<close>.\<close>

fun MakeMapWithSize :: "go_type \<Rightarrow> nat \<Rightarrow> go_value outcome" where
  "MakeMapWithSize (TMap k e) n = Return (VMap k e (Some []))"
| "MakeMapWithSize t n = Panic ReflectKindMismatch"

fun SetMapIndex :: "go_value \<Rightarrow> go_value \<Rightarrow> go_value \<Rightarrow> go_value outcome" where
  "SetMapIndex (VMap kt et (Some es)) key elem =
     obind (assignTo key kt) (\<lambda>k.
     obind (assignTo elem et) (\<lambda>e.
     Return (VMap kt et (Some (setEntry k e es)))))"
| "SetMapIndex (VMap kt et None) key elem = Panic NilDereference"
| "SetMapIndex m key elem = Panic ReflectKindMismatch"

text \<open>\<open>t.Elem()\<close> of a map type.\<close>

fun ElemOf :: "go_type \<Rightarrow> go_type outcome" where
  "ElemOf (TMap k e) = Return e"
| "ElemOf (TPtr t) = Return t"
| "ElemOf (TSlice t) = Return t"
| "ElemOf t = Panic ReflectKindMismatch"

text \<open>\<open>t.Key()\<close> of a map type, the type of every key that \<open>MapKeys\<close> returns.\<close>

fun KeyOf :: "go_type \<Rightarrow> go_type outcome" where
  "KeyOf (TMap k e) = Return k"
| "KeyOf t = Panic ReflectKindMismatch"

text \<open>\<open>key.String()\<close>\<close>

fun StringOf :: "go_value \<Rightarrow> string" where
  "StringOf (VString s) = s"
| "StringOf v = ''<Value>''"

text \<open>
  \<open>v.Interface()\<close>: the value as an \<open>interface{}\<close>; of a value of interface kind, the
  value it holds.
\<close>

fun Interface :: "go_value \<Rightarrow> go_value" where
  "Interface (VIface (Some v)) = v"
| "Interface v = v"

section \<open>map.go: Map\<close>

text \<open>
  The loop of \<open>Map\<close> over the entries of \<open>values\<close>, in iteration order. \<open>m\<close> is the new
  map, \<open>diags\<close> the diagnostics so far.
\<close>

fun Map_loop ::
  "deps \<Rightarrow> attr_type \<Rightarrow> go_type \<Rightarrow> go_value \<Rightarrow> path \<Rightarrow> (string \<times> tf_value) list \<Rightarrow>
   go_value \<Rightarrow> diagnostic list \<Rightarrow> (go_value \<times> diagnostic list) outcome" where
  "Map_loop dp elemAttrType elemType target path [] m diags = Return (m, diags)"
| "Map_loop dp elemAttrType elemType target path ((key, val) # rest) m diags =
     (let targetValue = Zero elemType;
          path' = WithElementKeyString path key;
          (result, elemDiags) = BuildValue dp elemAttrType val targetValue path';
          diags' = Append diags elemDiags
      in if HasError diags' then Return (target, diags')
         else obind (SetMapIndex m (VString key) result) (\<lambda>m'.
              Map_loop dp elemAttrType elemType target path rest m' diags'))"

definition Map ::
  "deps \<Rightarrow> attr_type \<Rightarrow> tf_value \<Rightarrow> go_value \<Rightarrow> path \<Rightarrow> (go_value \<times> diagnostic list) outcome" where
  "Map dp typ val target path =
     obind (trueReflectValue target) (\<lambda>underlyingValue.
       if Kind (TypeOf underlyingValue) \<noteq> KMap then
         Return (target, Append []
           [DiagIntoIncompatibleType val (TypeOf target) path (ErrExpectedMapType (TypeOf target))])
       else (case tf_typ val of
          None \<Rightarrow> Panic NilDereference
        | Some vt \<Rightarrow>
           if \<not> IsMapType vt then
             Return (target, Append []
               [DiagIntoIncompatibleType val (TypeOf target) path (ErrMustBeMap vt)])
           else (case ElementType typ of
              None \<Rightarrow>
                Return (target, Append []
                  [DiagIntoIncompatibleType val (TypeOf target) path
                     (ErrMustBeTypeWithElementType (TypeName typ))])
            | Some elemAttrType \<Rightarrow>
               (case AsMap dp val of
                  Inl err \<Rightarrow>
                    Return (target, Append []
                      [DiagIntoIncompatibleType val (TypeOf target) path err])
                | Inr values \<Rightarrow>
                    obind (ElemOf (TypeOf underlyingValue)) (\<lambda>elemType.
                    obind (MakeMapWithSize (TypeOf underlyingValue) (length values)) (\<lambda>m.
                    Map_loop dp elemAttrType elemType target path values m []))))))"

section \<open>map.go: FromMap\<close>

text \<open>
  One pass of the loop of \<open>FromMap\<close> over \<open>val.MapKeys()\<close>, in iteration order, each key
  with the element \<open>val.MapIndex(key)\<close>. \<open>Inl\<close> is a return from \<open>FromMap\<close> inside the
  loop, \<open>Inr\<close> the state after the last key.
\<close>

fun FromMap_loop ::
  "deps \<Rightarrow> attr_type \<Rightarrow> attr_type \<Rightarrow> go_type \<Rightarrow> path \<Rightarrow> (go_value \<times> go_value) list \<Rightarrow>
   (string \<Rightarrow> tf_value option) \<Rightarrow> diagnostic list \<Rightarrow>
   ((attr_value option \<times> diagnostic list) + ((string \<Rightarrow> tf_value option) \<times> diagnostic list)) outcome" where
  "FromMap_loop dp typ elemType keyType path [] tfElems diags = Return (Inr (tfElems, diags))"
| "FromMap_loop dp typ elemType keyType path ((key, elem) # rest) tfElems diags =
     (if Kind keyType \<noteq> KString then
        Return (Inl (None, AddAttributeError diags path ''Value Conversion Error''
          (ProviderBug ''convert into a Terraform value'' (ErrMapKeysMustBeStrings keyType))))
      else
        (let (val, valDiags) = FromValue dp elemType (Interface elem)
                                  (WithElementKeyString path (StringOf key));
             diags1 = Append diags valDiags
         in if HasError diags1 then Return (Inl (None, diags1))
            else (case val of
               None \<Rightarrow> Panic NilDereference
             | Some v \<Rightarrow>
                (case ToTerraformValue v of
                   Inl err \<Rightarrow> Return (Inl (None, diags1 @ [toTerraformValueErrorDiag err path]))
                 | Inr tfVal \<Rightarrow>
                    (let tfElemType = TerraformType elemType in
                     case ValidateValue (checkPayload dp) tfElemType tfVal of
                       Some err \<Rightarrow> Return (Inl (None, diags1 @ [validateValueErrorDiag err path]))
                     | None \<Rightarrow>
                        obind (NewValue (checkPayload dp) tfElemType tfVal) (\<lambda>tfElemVal.
                          (let diags2 = (case Validate typ of
                                           None \<Rightarrow> diags1
                                         | Some validate \<Rightarrow>
                                             Append diags1 (validate tfElemVal
                                               (WithElementKeyString path (StringOf key))))
                           in if Validate typ \<noteq> None \<and> HasError diags2 then Return (Inl (None, diags2))
                              else FromMap_loop dp typ elemType keyType path rest
                                     (tfElems(StringOf key \<mapsto> tfElemVal)) diags2)))))))"

text \<open>
  \<open>MapKeys\<close> with \<open>MapIndex\<close>: the entries of a map value; a panic on any other kind.
\<close>

fun MapEntries :: "go_value \<Rightarrow> (go_value \<times> go_value) list outcome" where
  "MapEntries (VMap k e (Some es)) = Return es"
| "MapEntries (VMap k e None) = Return []"
| "MapEntries v = Panic ReflectKindMismatch"

text \<open>
  \<open>typ\<close> is an \<open>attr.TypeWithElementType\<close>: Go's type checker admits no \<open>typ\<close> without
  \<open>ElementType\<close>, and the model gives such a call no result.
\<close>

definition FromMap ::
  "deps \<Rightarrow> attr_type \<Rightarrow> go_value \<Rightarrow> path \<Rightarrow> (attr_value option \<times> diagnostic list) outcome" where
  "FromMap dp typ val path =
     (let tfType = TerraformType typ in
      obind (IsNil val) (\<lambda>isNil.
      if isNil then
        obind (NewValue (checkPayload dp) tfType RawNil) (\<lambda>tfVal.
          (let diags = (case Validate typ of None \<Rightarrow> [] | Some validate \<Rightarrow> Append [] (validate tfVal path))
           in if Validate typ \<noteq> None \<and> HasError diags then Return (None, diags)
              else (case ValueFromTerraform typ tfVal of
                      Inl err \<Rightarrow>
                        Return (None, AddAttributeError diags path ''Value Conversion Error''
                          (ProviderBug ''convert from map value'' err))
                    | Inr attrVal \<Rightarrow> Return (attrVal, diags))))
      else (case ElementType typ of
         None \<Rightarrow> Panic NilDereference
       | Some elemType \<Rightarrow>
          obind (MapEntries val) (\<lambda>entries.
          obind (KeyOf (TypeOf val)) (\<lambda>keyType.
          obind (FromMap_loop dp typ elemType keyType path entries Map.empty []) (\<lambda>r.
            (case r of
               Inl ret \<Rightarrow> Return ret
             | Inr (tfElems, diags) \<Rightarrow>
                (case ValidateValue (checkPayload dp) tfType (RawMap tfElems) of
                   Some err \<Rightarrow> Return (None, diags @ [validateValueErrorDiag err path])
                 | None \<Rightarrow>
                    obind (NewValue (checkPayload dp) tfType (RawMap tfElems)) (\<lambda>tfVal.
                      (let diags' = (case Validate typ of
                                       None \<Rightarrow> diags
                                     | Some validate \<Rightarrow> Append diags (validate tfVal path))
                       in if Validate typ \<noteq> None \<and> HasError diags' then Return (None, diags')
                          else (case ValueFromTerraform typ tfVal of
                                  Inl err \<Rightarrow>
                                    Return (None, AddAttributeError diags' path ''Value Conversion Error''
                                      (ProviderBug ''convert to map value'' err))
                                | Inr attrVal \<Rightarrow> Return (attrVal, diags'))))))))))))"

section \<open>interfaces.go: capability hooks\<close>

text \<open>
  \<open>method.Call(args)\<close> followed by \<open>results[0].Interface()\<close> and the conversion of a
  non-nil first result into an error, as \<open>NewUnknownable\<close>, \<open>NewNullable\<close> and
  \<open>NewValueConverter\<close> do it. The receiver is the one the call leaves behind.
\<close>

definition callForError ::
  "(go_arg list \<Rightarrow> iface_result list \<times> go_value) \<Rightarrow> go_arg list \<Rightarrow> (go_error option \<times> go_value) outcome" where
  "callForError meth args =
     (let (results, receiver') = meth args in
      case results of
        [] \<Rightarrow> Panic IndexOutOfRange
      | r # rs \<Rightarrow>
         (case r of
            INil \<Rightarrow> Return (None, receiver')
          | IError e \<Rightarrow> Return (Some (ErrReflection e), receiver')
          | IOther v \<Rightarrow> Return (Some (ErrReflection (ErrUnknownErrorType v)), receiver')))"

definition NewUnknownable ::
  "deps \<Rightarrow> attr_type \<Rightarrow> tf_value \<Rightarrow> go_value \<Rightarrow> path \<Rightarrow> (go_value \<times> diagnostic list) outcome" where
  "NewUnknownable dp typ val target path =
     (let receiver = pointerSafeZeroValue dp target in
      case MethodByName dp receiver ''SetUnknown'' of
        None \<Rightarrow>
          Return (target, AddAttributeError [] path ''Value Conversion Error''
            (ProviderBug ''convert value'' (ErrCannotFindMethod ''SetUnknown'' (TypeOf receiver))))
      | Some meth \<Rightarrow>
          obind (callForError meth [ArgBool (\<not> IsKnown val)]) (\<lambda>(err, receiver').
            case err of
              Some underlyingErr \<Rightarrow>
                Return (target, AddAttributeError [] path ''Value Conversion Error''
                  (ProviderBug ''convert into a value'' underlyingErr))
            | None \<Rightarrow> Return (receiver', [])))"

definition NewNullable ::
  "deps \<Rightarrow> attr_type \<Rightarrow> tf_value \<Rightarrow> go_value \<Rightarrow> path \<Rightarrow> (go_value \<times> diagnostic list) outcome" where
  "NewNullable dp typ val target path =
     (let receiver = pointerSafeZeroValue dp target in
      case MethodByName dp receiver ''SetNull'' of
        None \<Rightarrow>
          Return (target, AddAttributeError [] path ''Value Conversion Error''
            (ProviderBug ''convert value'' (ErrCannotFindMethod ''SetNull'' (TypeOf receiver))))
      | Some meth \<Rightarrow>
          obind (callForError meth [ArgBool (IsNull val)]) (\<lambda>(err, receiver').
            case err of
              Some underlyingErr \<Rightarrow>
                Return (target, AddAttributeError [] path ''Value Conversion Error''
                  (ProviderBug ''convert into a value'' underlyingErr))
            | None \<Rightarrow> Return (receiver', [])))"


text \<open>
  The interfaces \<open>Unknownable\<close> and \<open>Nullable\<close> as \<open>FromUnknownable\<close> and
  \<open>FromNullable\<close> read them: the flag and the value accessor (\<open>GetValue\<close> of either
  interface; the two fields are named apart).
\<close>

record unknownable =
  GetUnknown :: bool
  UnknownableGetValue :: tf_raw

record nullable =
  GetNull :: bool
  NullableGetValue :: tf_raw

definition FromUnknownable ::
  "deps \<Rightarrow> attr_type \<Rightarrow> unknownable \<Rightarrow> path \<Rightarrow> (attr_value option \<times> diagnostic list) outcome" where
  "FromUnknownable dp typ val path =
     (if GetUnknown val then
        obind (NewValue (checkPayload dp) (TerraformType typ) RawUnknown) (\<lambda>tfVal.
          (let diags = (case Validate typ of None \<Rightarrow> [] | Some validate \<Rightarrow> Append [] (validate tfVal path))
           in if Validate typ \<noteq> None \<and> HasError diags then Return (None, diags)
              else (case ValueFromTerraform typ tfVal of
                      Inl err \<Rightarrow> Return (None, diags @ [valueFromTerraformErrorDiag err path])
                    | Inr res \<Rightarrow> Return (res, []))))
      else
        (case ValidateValue (checkPayload dp) (TerraformType typ) (UnknownableGetValue val) of
           Some err \<Rightarrow> Return (None, [] @ [validateValueErrorDiag err path])
         | None \<Rightarrow>
            obind (NewValue (checkPayload dp) (TerraformType typ) (UnknownableGetValue val)) (\<lambda>tfVal.
              (let diags = (case Validate typ of None \<Rightarrow> [] | Some validate \<Rightarrow> Append [] (validate tfVal path))
               in if Validate typ \<noteq> None \<and> HasError diags then Return (None, diags)
                  else (case ValueFromTerraform typ tfVal of
                          Inl err \<Rightarrow> Return (None, diags @ [valueFromTerraformErrorDiag err path])
                        | Inr res \<Rightarrow> Return (res, []))))))"

definition FromNullable ::
  "deps \<Rightarrow> attr_type \<Rightarrow> nullable \<Rightarrow> path \<Rightarrow> (attr_value option \<times> diagnostic list) outcome" where
  "FromNullable dp typ val path =
     (if GetNull val then
        obind (NewValue (checkPayload dp) (TerraformType typ) RawNil) (\<lambda>tfVal.
          (let diags = (case Validate typ of None \<Rightarrow> [] | Some validate \<Rightarrow> Append [] (validate tfVal path))
           in if Validate typ \<noteq> None \<and> HasError diags then Return (None, diags)
              else (case ValueFromTerraform typ tfVal of
                      Inl err \<Rightarrow> Return (None, diags @ [valueFromTerraformErrorDiag err path])
                    | Inr res \<Rightarrow> Return (res, []))))
      else
        (case ValidateValue (checkPayload dp) (TerraformType typ) (NullableGetValue val) of
           Some err \<Rightarrow> Return (None, [] @ [validateValueErrorDiag err path])
         | None \<Rightarrow>
            obind (NewValue (checkPayload dp) (TerraformType typ) (NullableGetValue val)) (\<lambda>tfVal.
              (let diags = (case Validate typ of None \<Rightarrow> [] | Some validate \<Rightarrow> Append [] (validate tfVal path))
               in if Validate typ \<noteq> None \<and> HasError diags then Return (None, diags)
                  else (case ValueFromTerraform typ tfVal of
                          Inl err \<Rightarrow> Return (None, diags @ [valueFromTerraformErrorDiag err path])
                        | Inr res \<Rightarrow> Return (res, diags))))))"

section \<open>interfaces.go: attribute values as leaves\<close>

text \<open>\<open>reflect.TypeOf(res)\<close> of an \<open>attr.Value\<close>: nil for the nil interface.\<close>

definition reflectTypeOf :: "attr_value option \<Rightarrow> go_type option" where
  "reflectTypeOf res = map_option (\<lambda>r. TypeOf (GoValue r)) res"

definition NewAttributeValue ::
  "deps \<Rightarrow> attr_type \<Rightarrow> tf_value \<Rightarrow> go_value \<Rightarrow> path \<Rightarrow> (go_value \<times> diagnostic list) outcome" where
  "NewAttributeValue dp typ val target path =
     (let diags = (case Validate typ of None \<Rightarrow> [] | Some validate \<Rightarrow> Append [] (validate val path))
      in if Validate typ \<noteq> None \<and> HasError diags then Return (target, diags)
         else (case ValueFromTerraform typ val of
                 Inl err \<Rightarrow> Return (target, diags @ [valueFromTerraformErrorDiag err path])
               | Inr res \<Rightarrow>
                  if reflectTypeOf res \<noteq> Some (TypeOf target) then
                    Return (target, Append diags
                      [DiagNewAttributeValueIntoWrongType (reflectTypeOf res) (TypeOf target) typ path])
                  else (case res of
                          None \<Rightarrow> Panic NilDereference
                        | Some r \<Rightarrow> Return (GoValue r, diags))))"

definition FromAttributeValue ::
  "deps \<Rightarrow> attr_type \<Rightarrow> attr_value \<Rightarrow> path \<Rightarrow> (attr_value option \<times> diagnostic list) outcome" where
  "FromAttributeValue dp typ val path =
     (case Validate typ of
        Some validate \<Rightarrow>
          (let tfType = TerraformType typ in
           case ToTerraformValue val of
             Inl err \<Rightarrow> Return (Some val, [] @ [toTerraformValueErrorDiag err path])
           | Inr tfVal \<Rightarrow>
               obind (NewValue (checkPayload dp) tfType tfVal) (\<lambda>v.
                 (let diags = Append [] (validate v path)
                  in if HasError diags then Return (Some val, diags)
                     else Return (Some val, diags))))
      | None \<Rightarrow> Return (Some val, []))"

section \<open>attr/value.go: ValueToTerraform\<close>

definition ValueToTerraform ::
  "(tf_type \<Rightarrow> tf_raw \<Rightarrow> go_error option) \<Rightarrow> attr_value \<Rightarrow> (tf_value \<times> go_error option) outcome" where
  "ValueToTerraform vv val =
     (case ToTerraformValue val of
        Inl err \<Rightarrow> Return (tf_zero, Some err)
      | Inr raw \<Rightarrow>
         (case ValidateValue vv (TypeTerraformType val) raw of
            Some err \<Rightarrow> Return (tf_zero, Some err)
          | None \<Rightarrow>
             obind (NewValue vv (TypeTerraformType val) raw) (\<lambda>v. Return (v, None))))"

section \<open>Vocabulary of the properties\<close>

text \<open>
  The fields that \<open>getStructTags\<close> does not skip: exported (\<open>PkgPath\<close> empty) and not
  tagged with the exclusion marker.
\<close>

definition bindable :: "struct_field \<Rightarrow> bool" where
  "bindable f = (PkgPath f = [] \<and> tagOf f \<noteq> ''-'')"

text \<open>
  Field \<open>k\<close>, at or after index \<open>i\<close>, makes the loop started at \<open>i\<close> with the map \<open>tags\<close>
  fail: it has no tag, an invalid one, or one already taken.
\<close>

definition badAt :: "struct_field list \<Rightarrow> (string \<rightharpoonup> nat) \<Rightarrow> nat \<Rightarrow> nat \<Rightarrow> bool" where
  "badAt fs tags i k = (i \<le> k \<and> k < length fs \<and> bindable (fs ! k) \<and>
     (tagOf (fs ! k) = [] \<or> \<not> isValidFieldName (tagOf (fs ! k)) \<or> tags (tagOf (fs ! k)) \<noteq> None \<or>
      (\<exists>j. i \<le> j \<and> j < k \<and> bindable (fs ! j) \<and> tagOf (fs ! j) = tagOf (fs ! k))))"



section \<open>Example inputs\<close>

definition exFields :: "struct_field list" where
  "exFields =
     [StructField ''Name'' [] [(''tfsdk'', ''name'')] TString,
      StructField ''hidden'' ''example.com/pkg'' [] TInt,
      StructField ''Skip'' [] [(''json'', ''skip''), (''tfsdk'', ''-'')] TBool,
      StructField ''Age'' [] [(''tfsdk'', ''age_1'')] TInt]"

definition exStruct :: go_value where
  "exStruct = VPtr (TStruct ''person'' exFields)
     (Some (VStruct ''person'' exFields [VString ''alice'', VInt 1, VBool True, VInt 30]))"

text \<open>
  A check of concrete payloads for the examples, as the library checks scalars and
  collections: the payload must have the Go type that the type expects.
\<close>

fun exCheck :: "tf_type \<Rightarrow> tf_raw \<Rightarrow> go_error option" where
  "exCheck TfBool (RawBool b) = None"
| "exCheck TfNumber (RawNumber n) = None"
| "exCheck TfString (RawString s) = None"
| "exCheck (TfList t) (RawList xs) = None"
| "exCheck (TfMap t) (RawMap m) = None"
| "exCheck t raw = Some (ErrOther ''tftypes: value of the wrong Go type'')"

text \<open>A string type and a bool type in the style of package \<open>types\<close>, and their values.\<close>

definition goString :: go_type where
  "goString = TStruct ''types.String''
     [StructField ''Unknown'' [] [] TBool, StructField ''Null'' [] [] TBool,
      StructField ''Value'' [] [] TString]"

definition goBool :: go_type where
  "goBool = TStruct ''types.Bool''
     [StructField ''Unknown'' [] [] TBool, StructField ''Null'' [] [] TBool,
      StructField ''Value'' [] [] TBool]"

definition exStringValue :: "string \<Rightarrow> attr_value" where
  "exStringValue s = AttrValue TfString (Inr (RawString s)) (Zero goString)"

definition exBoolValue :: "bool \<Rightarrow> attr_value" where
  "exBoolValue b = AttrValue TfBool (Inr (RawBool b)) (Zero goBool)"

definition exBrokenValue :: attr_value where
  "exBrokenValue = AttrValue TfString (Inl (ErrOther ''no raw value'')) (Zero goString)"

definition exStringFromTerraform :: "tf_value \<Rightarrow> go_error + attr_value option" where
  "exStringFromTerraform v =
     (case tf_payload v of
        RawString s \<Rightarrow> Inr (Some (exStringValue s))
      | RawNil \<Rightarrow> Inr (Some (AttrValue TfString (Inr RawNil) (Zero goString)))
      | RawUnknown \<Rightarrow> Inr (Some (AttrValue TfString (Inr RawUnknown) (Zero goString)))
      | _ \<Rightarrow> Inl (ErrOther ''not a string''))"

definition exStringType :: attr_type where
  "exStringType = AttrType ''types.StringType'' TfString exStringFromTerraform None None"

text \<open>A string type with a validate hook: the string \<open>bad\<close> is an error, the empty string a warning.\<close>

definition exValidate :: "tf_value \<Rightarrow> path \<Rightarrow> diagnostic list" where
  "exValidate v p =
     (if tf_payload v = RawString ''bad'' then [Diag SeverityError ''Invalid value'' ''bad'' (Some p)]
      else if tf_payload v = RawString [] then [Diag SeverityWarning ''Empty value'' ''empty'' (Some p)]
      else [])"

definition exValidatedType :: attr_type where
  "exValidatedType =
     AttrType ''testtypes.StringTypeWithValidate'' TfString exStringFromTerraform (Some exValidate) None"

text \<open>
  A target with the hooks \<open>SetUnknown\<close>, \<open>SetNull\<close> and \<open>FromTerraform5Value\<close> on its
  pointer: a struct of two flags and a string. \<open>SetUnknown\<close> and \<open>SetNull\<close> store their
  argument; \<open>FromTerraform5Value\<close> accepts strings only.
\<close>

definition goHooked :: go_type where
  "goHooked = TStruct ''hookedString''
     [StructField ''Unknown'' [] [] TBool, StructField ''Null'' [] [] TBool,
      StructField ''Value'' [] [] TString]"

definition hooked :: "bool \<Rightarrow> bool \<Rightarrow> string \<Rightarrow> go_value" where
  "hooked u n s = VPtr goHooked (Some (VStruct ''hookedString''
     [StructField ''Unknown'' [] [] TBool, StructField ''Null'' [] [] TBool,
      StructField ''Value'' [] [] TString] [VBool u, VBool n, VString s]))"

fun exSetUnknown :: "go_value \<Rightarrow> go_arg list \<Rightarrow> iface_result list \<times> go_value" where
  "exSetUnknown (VPtr t (Some (VStruct n fs [u, nl, v]))) [ArgBool b] =
     ([INil], VPtr t (Some (VStruct n fs [VBool b, nl, v])))"
| "exSetUnknown recv args = ([IError (ErrOther ''SetUnknown: bad call'')], recv)"

fun exSetNull :: "go_value \<Rightarrow> go_arg list \<Rightarrow> iface_result list \<times> go_value" where
  "exSetNull (VPtr t (Some (VStruct n fs [u, nl, v]))) [ArgBool b] =
     ([INil], VPtr t (Some (VStruct n fs [u, VBool b, v])))"
| "exSetNull recv args = ([IError (ErrOther ''SetNull: bad call'')], recv)"

fun exFromTerraform5Value :: "go_value \<Rightarrow> go_arg list \<Rightarrow> iface_result list \<times> go_value" where
  "exFromTerraform5Value (VPtr t (Some (VStruct n fs [u, nl, v]))) [ArgTfValue (TfValue ty (RawString s))] =
     ([INil], VPtr t (Some (VStruct n fs [u, nl, VString s])))"
| "exFromTerraform5Value recv args = ([IError (ErrOther ''not a string'')], recv)"

definition exMethodByName ::
  "go_value \<Rightarrow> string \<Rightarrow> (go_arg list \<Rightarrow> iface_result list \<times> go_value) option" where
  "exMethodByName recv name =
     (if TypeOf recv \<noteq> TPtr goHooked then None
      else if name = ''SetUnknown'' then Some (exSetUnknown recv)
      else if name = ''SetNull'' then Some (exSetNull recv)
      else if name = ''FromTerraform5Value'' then Some (exFromTerraform5Value recv)
      else None)"

text \<open>
  \<open>pointerSafeZeroValue\<close> of the examples: the zero value of the target's type, and for
  a pointer type a pointer to a new zero value.
\<close>

definition exPointerSafeZeroValue :: "go_value \<Rightarrow> go_value" where
  "exPointerSafeZeroValue target =
     (case TypeOf target of TPtr t \<Rightarrow> VPtr t (Some (Zero t)) | t \<Rightarrow> Zero t)"

text \<open>
  The recursive entry points of the examples know strings only: \<open>BuildValue\<close> turns a
  raw string into a Go string, \<open>FromValue\<close> a Go string into a string value; anything
  else is an error at the path.
\<close>

definition exBuildValue :: "attr_type \<Rightarrow> tf_value \<Rightarrow> go_value \<Rightarrow> path \<Rightarrow> go_value \<times> diagnostic list" where
  "exBuildValue typ v target p =
     (case tf_payload v of
        RawString s \<Rightarrow> (VString s, [])
      | _ \<Rightarrow> (target, [DiagIntoIncompatibleType v (TypeOf target) p (ErrOther ''not a string'')]))"

definition exFromValue :: "attr_type \<Rightarrow> go_value \<Rightarrow> path \<Rightarrow> attr_value option \<times> diagnostic list" where
  "exFromValue typ v p =
     (case v of
        VString s \<Rightarrow> (Some (exStringValue s), [])
      | _ \<Rightarrow> (None, [AttributeErrorDiagnostic p ''Value Conversion Error''
                 (ProviderBug ''convert from value'' (ErrOther ''not a string''))]))"

text \<open>
  \<open>val.As(&values)\<close> of the examples, for maps with the keys \<open>a\<close> and \<open>b\<close>; \<open>range\<close> visits
  them in the order given.
\<close>

definition exAsMap :: "string list \<Rightarrow> tf_value \<Rightarrow> go_error + (string \<times> tf_value) list" where
  "exAsMap order v =
     (case tf_payload v of
        RawNil \<Rightarrow> Inr []
      | RawMap m \<Rightarrow> Inr (List.map_filter (\<lambda>k. map_option (Pair k) (m k)) order)
      | _ \<Rightarrow> Inl (ErrOther ''cannot unmarshal into a map''))"

definition exDeps :: "string list \<Rightarrow> deps" where
  "exDeps order =
     \<lparr> checkPayload = exCheck, AsMap = exAsMap order, BuildValue = exBuildValue,
       FromValue = exFromValue, pointerSafeZeroValue = exPointerSafeZeroValue,
       MethodByName = exMethodByName \<rparr>"






definition exMapFromTerraform :: "tf_value \<Rightarrow> go_error + attr_value option" where
  "exMapFromTerraform v =
     Inr (Some (AttrValue (TfMap TfString) (Inr (tf_payload v)) (VStruct ''types.Map'' [] [])))"

definition exMapType :: attr_type where
  "exMapType = AttrType ''types.MapType'' (TfMap TfString) exMapFromTerraform None (Some exStringType)"


text \<open>
  A map type with a validate hook: a null map and a map with the key \<open>bad\<close> are errors.
\<close>

definition exMapValidate :: "tf_value \<Rightarrow> path \<Rightarrow> diagnostic list" where
  "exMapValidate v p =
     (case tf_payload v of
        RawNil \<Rightarrow> [Diag SeverityError ''Null map'' ''null'' (Some p)]
      | RawMap m \<Rightarrow>
          (if m ''bad'' \<noteq> None then [Diag SeverityError ''Bad key'' ''bad'' (Some p)] else [])
      | _ \<Rightarrow> [])"

definition exValidatedMapType :: attr_type where
  "exValidatedMapType =
     AttrType ''testtypes.MapTypeWithValidate'' (TfMap TfString) exMapFromTerraform
       (Some exMapValidate) (Some exStringType)"

definition exIntKeyedMap :: go_value where
  "exIntKeyedMap = VMap TInt TString (Some [(VInt 1, VString ''x'')])"

definition exBadKeyMap :: go_value where
  "exBadKeyMap = VMap TString TString (Some [(VString ''bad'', VString ''x'')])"


section \<open>Properties of structure metadata\<close>

lemma loop_done: "\<not> i < length fs \<Longrightarrow> getStructTags_loop fs path i tags = Inr tags"
  by (subst getStructTags_loop.simps) simp

lemma loop_skip:
  "i < length fs \<Longrightarrow> \<not> bindable (fs ! i) \<Longrightarrow>
   getStructTags_loop fs path i tags = getStructTags_loop fs path (Suc i) tags"
  by (subst getStructTags_loop.simps) (auto simp: bindable_def Let_def)

lemma loop_bad:
  "i < length fs \<Longrightarrow> bindable (fs ! i) \<Longrightarrow>
   tagOf (fs ! i) = [] \<or> \<not> isValidFieldName (tagOf (fs ! i)) \<or> tags (tagOf (fs ! i)) \<noteq> None \<Longrightarrow>
   \<exists>e. getStructTags_loop fs path i tags = Inl e"
  by (subst getStructTags_loop.simps) (auto simp: bindable_def Let_def split: option.splits)

lemma loop_add:
  "i < length fs \<Longrightarrow> bindable (fs ! i) \<Longrightarrow> tagOf (fs ! i) \<noteq> [] \<Longrightarrow>
   isValidFieldName (tagOf (fs ! i)) \<Longrightarrow> tags (tagOf (fs ! i)) = None \<Longrightarrow>
   getStructTags_loop fs path i tags = getStructTags_loop fs path (Suc i) (tags(tagOf (fs ! i) \<mapsto> i))"
  by (subst getStructTags_loop.simps) (auto simp: bindable_def Let_def)

lemma badAt_skip:
  "\<not> bindable (fs ! i) \<Longrightarrow> badAt fs tags i = badAt fs tags (Suc i)"
  unfolding badAt_def fun_eq_iff
  by (metis Suc_leD Suc_le_eq le_neq_implies_less)

lemma badAt_add:
  assumes "bindable (fs ! i)" "i < length fs" "tagOf (fs ! i) \<noteq> []" "isValidFieldName (tagOf (fs ! i))"
    "tags (tagOf (fs ! i)) = None"
  shows "badAt fs tags i = badAt fs (tags(tagOf (fs ! i) \<mapsto> i)) (Suc i)"
proof (rule ext)
  fix k
  show "badAt fs tags i k \<longleftrightarrow> badAt fs (tags(tagOf (fs ! i) \<mapsto> i)) (Suc i) k"
proof (cases "k = i")
  case True
  then show ?thesis using assms by (auto simp: badAt_def)
next
  case False
  have j: "(\<exists>j. i \<le> j \<and> j < k \<and> bindable (fs ! j) \<and> tagOf (fs ! j) = tagOf (fs ! k)) \<longleftrightarrow>
        (i < k \<and> tagOf (fs ! i) = tagOf (fs ! k)) \<or> (\<exists>j. Suc i \<le> j \<and> j < k \<and> bindable (fs ! j) \<and> tagOf (fs ! j) = tagOf (fs ! k))"
    using assms(1) by (metis Suc_leD Suc_le_eq le_neq_implies_less order_le_less)
  show ?thesis unfolding badAt_def j using False by (auto simp: Suc_le_eq)
qed
qed

lemma loop_Inl_iff:
  "(\<exists>e. getStructTags_loop fs path i tags = Inl e) \<longleftrightarrow> (\<exists>k. badAt fs tags i k)"
proof (induction "length fs - i" arbitrary: i tags)
  case 0
  then show ?case by (auto simp: loop_done badAt_def)
next
  case (Suc n)
  then have lt: "i < length fs" and n: "n = length fs - Suc i" by auto
  show ?case
  proof (cases "bindable (fs ! i)")
    case False
    show ?thesis using Suc(1)[OF n] loop_skip[OF lt False, of path tags] badAt_skip[OF False, of tags] by simp
  next
    case True
    show ?thesis
    proof (cases "tagOf (fs ! i) = [] \<or> \<not> isValidFieldName (tagOf (fs ! i)) \<or> tags (tagOf (fs ! i)) \<noteq> None")
      case True
      have "badAt fs tags i i" using True lt \<open>bindable (fs ! i)\<close> by (auto simp: badAt_def)
      then show ?thesis using loop_bad[of i fs tags path, OF lt \<open>bindable (fs ! i)\<close> True] by blast
    next
      case False
      then have g: "tagOf (fs ! i) \<noteq> []" "isValidFieldName (tagOf (fs ! i))" "tags (tagOf (fs ! i)) = None"
        by auto
      show ?thesis
        using Suc(1)[OF n] loop_add[of i fs tags path, OF lt True g] badAt_add[of fs i tags, OF True lt g] by simp
    qed
  qed
qed

lemma loop_Inr:
  "getStructTags_loop fs path i tags = Inr m \<Longrightarrow>
   m t = Some k \<longleftrightarrow> tags t = Some k \<or> (i \<le> k \<and> k < length fs \<and> bindable (fs ! k) \<and> tagOf (fs ! k) = t)"
proof (induction "length fs - i" arbitrary: i tags)
  case 0
  then show ?case by (auto simp: loop_done)
next
  case (Suc n)
  then have lt: "i < length fs" and n: "n = length fs - Suc i" by auto
  show ?case
  proof (cases "bindable (fs ! i)")
    case False
    have "getStructTags_loop fs path (Suc i) tags = Inr m"
      using Suc.prems loop_skip[OF lt False, of path tags] by simp
    from Suc(1)[OF n this] show ?thesis using False
      by (metis Suc_leD Suc_le_eq le_neq_implies_less)
  next
    case True
    have nb: "\<not> badAt fs tags i i"
      using loop_Inl_iff[of fs path i tags] Suc.prems by auto
    then have g: "tagOf (fs ! i) \<noteq> []" "isValidFieldName (tagOf (fs ! i))" "tags (tagOf (fs ! i)) = None"
      using True lt by (auto simp: badAt_def)
    have "getStructTags_loop fs path (Suc i) (tags(tagOf (fs ! i) \<mapsto> i)) = Inr m"
      using Suc.prems loop_add[of i fs tags path, OF lt True g] by simp
    note ih = Suc(1)[OF n this]
    have nodup: "\<not> badAt fs tags i k'" for k'
      using loop_Inl_iff[of fs path i tags] Suc.prems by auto
    show ?thesis
    proof (cases "t = tagOf (fs ! i)")
      case False
      then show ?thesis using ih True by (auto simp: Suc_le_eq order_le_less)
    next
      case teq: True
      have "\<not> (Suc i \<le> k' \<and> k' < length fs \<and> bindable (fs ! k') \<and> tagOf (fs ! k') = t)" for k'
        using nodup[of k'] True teq unfolding badAt_def by (metis Suc_le_eq order_le_less order_refl Suc_leD)
      then show ?thesis using ih teq g True lt by (auto simp: Suc_le_eq order_le_less)
    qed
  qed
qed


lemma upper_no_name_char:
  "is_upper c \<Longrightarrow> \<not> is_lower c \<and> \<not> is_digit c \<and> c \<noteq> CHR ''_''"
  by (auto simp: is_lower_def is_upper_def is_digit_def)

lemma upper_invalid: "c \<in> set t \<Longrightarrow> is_upper c \<Longrightarrow> \<not> isValidFieldName t"
  using upper_no_name_char[of c] by (cases t) (auto simp: list_all_iff)

lemma leading_digit_invalid: "is_digit c \<Longrightarrow> \<not> isValidFieldName (c # cs)"
  by (auto simp: is_lower_def is_digit_def)

lemma getStructTags_struct:
  "trueReflectValue inp = Return (VStruct n fs vs) \<Longrightarrow>
   getStructTags inp path = Return (getStructTags_loop fs path 0 Map.empty)"
  by (simp add: getStructTags_def)

text \<open>
  C2. For a struct (reached through pointers and interfaces), \<open>getStructTags\<close> returns an
  error exactly when some exported field not tagged \<open>-\<close> has no tag, a tag that does not
  match \<open>^[a-z][a-z0-9_]*$\<close> (so any tag with an uppercase letter or a leading digit),
  or a tag already used by an earlier such field. Fields tagged \<open>-\<close> and unexported fields
  are excluded. On success the map sends each tag to the index of the field declaring it.
  The result depends on the struct type only, never on the field values.
\<close>

theorem getStructTags_validates_tags:
  assumes "trueReflectValue inp = Return (VStruct n fs vs)"
  shows "((\<exists>e. getStructTags inp path = Return (Inl e)) \<longleftrightarrow>
          (\<exists>i<length fs. bindable (fs ! i) \<and>
             (tagOf (fs ! i) = [] \<or> \<not> isValidFieldName (tagOf (fs ! i)) \<or>
              (\<exists>j<i. bindable (fs ! j) \<and> tagOf (fs ! j) = tagOf (fs ! i)))))
       \<and> (\<forall>m t i. getStructTags inp path = Return (Inr m) \<longrightarrow>
            (m t = Some i \<longleftrightarrow> i < length fs \<and> bindable (fs ! i) \<and> tagOf (fs ! i) = t))
       \<and> (\<forall>t c. c \<in> set t \<and> is_upper c \<longrightarrow> \<not> isValidFieldName t)
       \<and> (\<forall>c cs. is_digit c \<longrightarrow> \<not> isValidFieldName (c # cs))
       \<and> \<not> bindable (StructField nm pk [(''tfsdk'', ''-'')] ty)
       \<and> (pk \<noteq> [] \<longrightarrow> \<not> bindable (StructField nm pk tg ty))
       \<and> getStructTags inp path = getStructTags (VStruct n fs vs') path"
proof -
  have r: "getStructTags inp path = Return (getStructTags_loop fs path 0 Map.empty)"
    using assms by (rule getStructTags_struct)
  have a: "(\<exists>e. getStructTags inp path = Return (Inl e)) \<longleftrightarrow>
          (\<exists>i<length fs. bindable (fs ! i) \<and>
             (tagOf (fs ! i) = [] \<or> \<not> isValidFieldName (tagOf (fs ! i)) \<or>
              (\<exists>j<i. bindable (fs ! j) \<and> tagOf (fs ! j) = tagOf (fs ! i))))"
    unfolding r using loop_Inl_iff[of fs path 0 Map.empty] by (simp add: badAt_def)
  have b: "\<forall>m t i. getStructTags inp path = Return (Inr m) \<longrightarrow>
            (m t = Some i \<longleftrightarrow> i < length fs \<and> bindable (fs ! i) \<and> tagOf (fs ! i) = t)"
    unfolding r using loop_Inr[of fs path 0 Map.empty] by simp
  have c: "\<forall>t c. c \<in> set t \<and> is_upper c \<longrightarrow> \<not> isValidFieldName t"
    using upper_invalid by blast
  have d: "\<forall>c cs. is_digit c \<longrightarrow> \<not> isValidFieldName (c # cs)"
    using leading_digit_invalid by blast
  have e: "\<not> bindable (StructField nm pk [(''tfsdk'', ''-'')] ty)"
    by (simp add: bindable_def tagOf_def TagGet_def)
  have f: "pk \<noteq> [] \<longrightarrow> \<not> bindable (StructField nm pk tg ty)"
    by (simp add: bindable_def)
  have g: "getStructTags inp path = getStructTags (VStruct n fs vs') path"
    unfolding r by (simp add: getStructTags_def)
  from a b c d e f g show ?thesis by blast
qed

theorem getStructTags_validates_tags_witness:
  "trueReflectValue exStruct = Return (VStruct ''person'' exFields [VString ''alice'', VInt 1, VBool True, VInt 30])
   \<and> getStructTags exStruct [] = Return (Inr [''name'' \<mapsto> 0, ''age_1'' \<mapsto> 3])
   \<and> bindable (exFields ! 3) \<and> tagOf (exFields ! 3) = ''age_1''
   \<and> getStructTags exStruct [] = getStructTags (VStruct ''person'' exFields []) []"
proof -
  have t: "trueReflectValue exStruct = Return (VStruct ''person'' exFields [VString ''alice'', VInt 1, VBool True, VInt 30])"
    by (simp add: exStruct_def)
  have ev: "getStructTags exStruct [] = Return (Inr [''name'' \<mapsto> 0, ''age_1'' \<mapsto> 3])"
    unfolding getStructTags_struct[OF t]
    apply (subst getStructTags_loop.simps, simp add: exFields_def tagOf_def TagGet_def is_lower_def is_digit_def)
    apply (subst getStructTags_loop.simps, simp add: tagOf_def TagGet_def is_lower_def is_digit_def)
    apply (subst getStructTags_loop.simps, simp add: tagOf_def TagGet_def is_lower_def is_digit_def)
    apply (subst getStructTags_loop.simps, simp add: tagOf_def TagGet_def is_lower_def is_digit_def)
    apply (subst getStructTags_loop.simps, simp add: tagOf_def TagGet_def is_lower_def is_digit_def numeral_3_eq_3)
    done
  note th = getStructTags_validates_tags[OF t, of "[]" _ _ _ _ "[]"]
  from th ev have "([''name'' \<mapsto> 0, ''age_1'' \<mapsto> 3] :: string \<rightharpoonup> nat) ''age_1'' = Some 3 \<longleftrightarrow>
      3 < length exFields \<and> bindable (exFields ! 3) \<and> tagOf (exFields ! 3) = ''age_1''"
    by blast
  then have b: "bindable (exFields ! 3) \<and> tagOf (exFields ! 3) = ''age_1''" by simp
  from th have "getStructTags exStruct [] = getStructTags (VStruct ''person'' exFields []) []" by blast
  with t ev b show ?thesis by blast
qed

section \<open>Properties of the converters\<close>

lemma NewValue_valid:
  "ValidateValue vv t raw = None \<Longrightarrow> NewValue vv t raw = Return (TfValue (Some t) raw)"
  by (simp add: NewValue_def)

lemma NewValue_invalid:
  "ValidateValue vv t raw = Some e \<Longrightarrow> NewValue vv t raw = Panic NewValueInvalid"
  by (simp add: NewValue_def)

lemma NewValue_nil [simp]: "NewValue vv t RawNil = Return (TfValue (Some t) RawNil)"
  by (simp add: NewValue_def ValidateValue_def)

lemma NewValue_unknown [simp]: "NewValue vv t RawUnknown = Return (TfValue (Some t) RawUnknown)"
  by (simp add: NewValue_def ValidateValue_def)

text \<open>
  C8. \<open>ValueToTerraform\<close> always returns. It returns an error, together with the zero
  \<open>tftypes.Value\<close>, exactly when \<open>ToTerraformValue\<close> of the value fails or the raw value
  it produced fails \<open>tftypes.ValidateValue\<close> against the raw shape of the value's own Type;
  otherwise it returns the raw transport value made of that type and payload.
\<close>

theorem ValueToTerraform_revalidates:
  "\<exists>v e. ValueToTerraform vv val = Return (v, e)
     \<and> (e \<noteq> None \<longleftrightarrow>
          (\<exists>err. ToTerraformValue val = Inl err) \<or>
          (\<exists>raw err. ToTerraformValue val = Inr raw \<and>
             ValidateValue vv (TypeTerraformType val) raw = Some err))
     \<and> (e \<noteq> None \<longrightarrow> v = tf_zero)
     \<and> (e = None \<longrightarrow>
          (\<exists>raw. ToTerraformValue val = Inr raw \<and> v = TfValue (Some (TypeTerraformType val)) raw))"
proof (cases "ToTerraformValue val")
  case (Inl err)
  then show ?thesis by (simp add: ValueToTerraform_def)
next
  case (Inr raw)
  show ?thesis
  proof (cases "ValidateValue vv (TypeTerraformType val) raw")
    case None
    then show ?thesis using Inr by (simp add: ValueToTerraform_def NewValue_valid)
  next
    case (Some err)
    then show ?thesis using Inr by (simp add: ValueToTerraform_def)
  qed
qed

theorem ValueToTerraform_revalidates_witness:
  "ValueToTerraform exCheck (exStringValue ''x'') = Return (TfValue (Some TfString) (RawString ''x''), None)
   \<and> ValueToTerraform exCheck (AttrValue TfBool (Inr (RawString ''x'')) (Zero goBool))
       = Return (tf_zero, Some (ErrOther ''tftypes: value of the wrong Go type''))"
proof -
  obtain v e where r: "ValueToTerraform exCheck (exStringValue ''x'') = Return (v, e)"
    and iff: "e \<noteq> None \<longleftrightarrow>
          (\<exists>err. ToTerraformValue (exStringValue ''x'') = Inl err) \<or>
          (\<exists>raw err. ToTerraformValue (exStringValue ''x'') = Inr raw \<and>
             ValidateValue exCheck (TypeTerraformType (exStringValue ''x'')) raw = Some err)"
    and ok: "e = None \<longrightarrow>
          (\<exists>raw. ToTerraformValue (exStringValue ''x'') = Inr raw \<and>
             v = TfValue (Some (TypeTerraformType (exStringValue ''x''))) raw)"
    using ValueToTerraform_revalidates[of exCheck "exStringValue ''x''"] by blast
  have "e = None" using iff by (simp add: exStringValue_def ValidateValue_def)
  then have a: "ValueToTerraform exCheck (exStringValue ''x'') = Return (TfValue (Some TfString) (RawString ''x''), None)"
    using r ok by (simp add: exStringValue_def)
  have b: "ValueToTerraform exCheck (AttrValue TfBool (Inr (RawString ''x'')) (Zero goBool))
       = Return (tf_zero, Some (ErrOther ''tftypes: value of the wrong Go type''))"
    by (simp add: ValueToTerraform_def ValidateValue_def)
  from a b show ?thesis by simp
qed

lemma HasError_append [simp]: "HasError (xs @ ys) \<longleftrightarrow> HasError xs \<or> HasError ys"
  by (simp add: HasError_def)

lemma HasError_Append [simp]: "HasError (Append xs ys) \<longleftrightarrow> HasError xs \<or> HasError ys"
  by (simp add: Append_def)

lemma HasError_Nil [simp]: "\<not> HasError []"
  by (simp add: HasError_def)

lemma HasError_Cons [simp]: "HasError (d # ds) \<longleftrightarrow> Severity d = SeverityError \<or> HasError ds"
  by (simp add: HasError_def)

lemma Append_Nil [simp]: "Append [] ds = ds" "Append ds [] = ds"
  by (simp_all add: Append_def)

text \<open>
  C4. When \<open>ValueFromTerraform\<close> of the Type is reached (no validate hook, or a hook
  without an error) and produces a value whose Go type is not the type of the target,
  \<open>NewAttributeValue\<close> returns the target it was given, unchanged, and appends one
  diagnostic \<open>DiagNewAttributeValueIntoWrongType\<close> of error severity that carries the path
  and both types; the produced value is not returned.
\<close>

theorem NewAttributeValue_wrong_type:
  assumes "ValueFromTerraform typ val = Inr res"
    and "reflectTypeOf res \<noteq> Some (TypeOf target)"
    and "\<forall>validate. Validate typ = Some validate \<longrightarrow> \<not> HasError (validate val path)"
  shows "NewAttributeValue dp typ val target path =
           Return (target,
             (case Validate typ of None \<Rightarrow> [] | Some validate \<Rightarrow> validate val path) @
             [DiagNewAttributeValueIntoWrongType (reflectTypeOf res) (TypeOf target) typ path])
         \<and> Severity (DiagNewAttributeValueIntoWrongType (reflectTypeOf res) (TypeOf target) typ path)
             = SeverityError
         \<and> DiagPath (DiagNewAttributeValueIntoWrongType (reflectTypeOf res) (TypeOf target) typ path)
             = Some path"
proof (cases "Validate typ")
  case None
  then show ?thesis using assms by (simp add: NewAttributeValue_def)
next
  case (Some validate)
  then have "\<not> HasError (validate val path)" using assms(3) by simp
  then show ?thesis using Some assms(1,2) by (simp add: NewAttributeValue_def Append_def)
qed

theorem NewAttributeValue_wrong_type_witness:
  "NewAttributeValue (exDeps [''a'', ''b'']) exValidatedType (TfValue (Some TfString) (RawString []))
     (Zero goBool) [AttributeName ''name'']
   = Return (Zero goBool,
       [Diag SeverityWarning ''Empty value'' ''empty'' (Some [AttributeName ''name'']),
        DiagNewAttributeValueIntoWrongType (Some goString) goBool exValidatedType [AttributeName ''name'']])"
proof -
  let ?val = "TfValue (Some TfString) (RawString [])"
  let ?path = "[AttributeName ''name'']"
  have a: "ValueFromTerraform exValidatedType ?val = Inr (Some (exStringValue []))"
    by (simp add: exValidatedType_def exStringFromTerraform_def)
  have t: "TypeOf (Zero goBool) = goBool" "TypeOf (Zero goString) = goString"
    by (simp_all add: goBool_def goString_def)
  have b: "reflectTypeOf (Some (exStringValue [])) \<noteq> Some (TypeOf (Zero goBool))"
    unfolding t by (simp add: reflectTypeOf_def exStringValue_def goString_def goBool_def)
  have c: "\<forall>validate. Validate exValidatedType = Some validate \<longrightarrow> \<not> HasError (validate ?val ?path)"
    by (simp add: exValidatedType_def exValidate_def)
  have r: "reflectTypeOf (Some (exStringValue [])) = Some goString"
    by (simp add: reflectTypeOf_def exStringValue_def t)
  show ?thesis
    using NewAttributeValue_wrong_type[OF a b c, of "exDeps [''a'', ''b'']"]
    unfolding r t by (simp add: exValidatedType_def exValidate_def)
qed

text \<open>
  What \<open>FromAttributeValue\<close> does whenever it returns, and when it returns.
\<close>

lemma FromAttributeValue_returns_input:
  "FromAttributeValue dp typ val path = Return (r, ds) \<Longrightarrow>
   r = Some val \<and>
   (ds \<noteq> [] \<longrightarrow>
     (\<exists>validate. Validate typ = Some validate \<and>
        ((\<exists>err. ToTerraformValue val = Inl err) \<or>
         (\<exists>raw. ToTerraformValue val = Inr raw \<and>
            ds = validate (TfValue (Some (TerraformType typ)) raw) path))))"
  by (auto simp: FromAttributeValue_def NewValue_def Let_def
      split: option.splits sum.splits if_splits)

lemma FromAttributeValue_returns_iff:
  "(\<exists>r ds. FromAttributeValue dp typ val path = Return (r, ds)) \<longleftrightarrow>
   \<not> (Validate typ \<noteq> None \<and>
      (\<exists>raw err. ToTerraformValue val = Inr raw \<and>
         ValidateValue (checkPayload dp) (TerraformType typ) raw = Some err))"
  by (auto simp: FromAttributeValue_def NewValue_def Let_def
      split: option.splits sum.splits if_splits)

text \<open>
  C10. \<open>FromAttributeValue\<close> does not return the value it was passed in every case: with
  a Type that has the validate hook, it hands the raw value of the attribute value to
  \<open>tftypes.NewValue\<close> unchecked, and a raw value that is not valid for the raw shape of
  the Type (here a bool for a string type) makes \<open>NewValue\<close> panic.
\<close>

theorem FromAttributeValue_panics_on_mismatch:
  "FromAttributeValue (exDeps [''a'', ''b'']) exValidatedType (exBoolValue True) [AttributeName ''name'']
   = Panic NewValueInvalid"
  by (simp add: FromAttributeValue_def exValidatedType_def exBoolValue_def exDeps_def
      NewValue_def ValidateValue_def)

lemma callForError_nil:
  "meth args = (INil # rs, recv') \<Longrightarrow> callForError meth args = Return (None, recv')"
  by (simp add: callForError_def)

lemma null_is_known: "IsNull v \<Longrightarrow> IsKnown v"
  by (simp add: IsNull_def IsKnown_def)

lemma NewUnknownable_flag:
  "MethodByName dp (pointerSafeZeroValue dp target) ''SetUnknown'' = Some meth \<Longrightarrow>
   meth [ArgBool (\<not> IsKnown val)] = (INil # rs, recv') \<Longrightarrow>
   NewUnknownable dp typ val target path = Return (recv', [])"
  by (simp add: NewUnknownable_def callForError_nil)

lemma NewNullable_flag:
  "MethodByName dp (pointerSafeZeroValue dp target) ''SetNull'' = Some meth \<Longrightarrow>
   meth [ArgBool (IsNull val)] = (INil # rs, recv') \<Longrightarrow>
   NewNullable dp typ val target path = Return (recv', [])"
  by (simp add: NewNullable_def callForError_nil)

lemma NewUnknownable_reads_flag_only:
  "IsKnown val' = IsKnown val \<Longrightarrow>
   pointerSafeZeroValue dp' target = pointerSafeZeroValue dp target \<Longrightarrow>
   MethodByName dp' (pointerSafeZeroValue dp target) ''SetUnknown''
     = MethodByName dp (pointerSafeZeroValue dp target) ''SetUnknown'' \<Longrightarrow>
   NewUnknownable dp' typ' val' target path = NewUnknownable dp typ val target path"
  by (simp add: NewUnknownable_def Let_def split: option.splits)

lemma NewNullable_reads_flag_only:
  "IsNull val' = IsNull val \<Longrightarrow>
   pointerSafeZeroValue dp' target = pointerSafeZeroValue dp target \<Longrightarrow>
   MethodByName dp' (pointerSafeZeroValue dp target) ''SetNull''
     = MethodByName dp (pointerSafeZeroValue dp target) ''SetNull'' \<Longrightarrow>
   NewNullable dp' typ' val' target path = NewNullable dp typ val target path"
  by (simp add: NewNullable_def Let_def split: option.splits)

lemma FromUnknownable_ignores_value:
  "GetUnknown u \<Longrightarrow>
   FromUnknownable dp typ (u\<lparr>UnknownableGetValue := x\<rparr>) path = FromUnknownable dp typ u path"
  by (simp add: FromUnknownable_def)

lemma FromUnknownable_unknown:
  "GetUnknown u \<Longrightarrow>
   \<forall>validate. Validate typ = Some validate \<longrightarrow>
      \<not> HasError (validate (TfValue (Some (TerraformType typ)) RawUnknown) path) \<Longrightarrow>
   ValueFromTerraform typ (TfValue (Some (TerraformType typ)) RawUnknown) = Inr res \<Longrightarrow>
   FromUnknownable dp typ u path = Return (res, [])"
  by (cases "Validate typ") (simp_all add: FromUnknownable_def)

text \<open>
  C3. \<open>NewUnknownable\<close> calls \<open>SetUnknown\<close> on the fresh receiver with the flag "the raw
  value is not known", \<open>NewNullable\<close> calls \<open>SetNull\<close> with the flag "the raw value is
  null", and each returns the receiver as that call leaves it. Neither reads anything
  of the raw value but that flag, nor the Type, nor any other method of the target, so
  the payload is never decoded. A null raw value is known, so the two flags are never
  both raised by one raw value. \<open>FromUnknownable\<close> with the unknown flag set does not
  read the value accessor: its result is what \<open>ValueFromTerraform\<close> makes of the unknown
  raw value of the Type.
\<close>

theorem hooks_keep_null_and_unknown_apart:
  "(\<forall>meth rs recv'.
      MethodByName dp (pointerSafeZeroValue dp target) ''SetUnknown'' = Some meth \<and>
      meth [ArgBool (\<not> IsKnown val)] = (INil # rs, recv') \<longrightarrow>
      NewUnknownable dp typ val target path = Return (recv', []))
   \<and> (\<forall>meth rs recv'.
      MethodByName dp (pointerSafeZeroValue dp target) ''SetNull'' = Some meth \<and>
      meth [ArgBool (IsNull val)] = (INil # rs, recv') \<longrightarrow>
      NewNullable dp typ val target path = Return (recv', []))
   \<and> (\<forall>dp' typ' val'.
      IsKnown val' = IsKnown val \<and>
      pointerSafeZeroValue dp' target = pointerSafeZeroValue dp target \<and>
      MethodByName dp' (pointerSafeZeroValue dp target) ''SetUnknown''
        = MethodByName dp (pointerSafeZeroValue dp target) ''SetUnknown'' \<longrightarrow>
      NewUnknownable dp' typ' val' target path = NewUnknownable dp typ val target path)
   \<and> (\<forall>dp' typ' val'.
      IsNull val' = IsNull val \<and>
      pointerSafeZeroValue dp' target = pointerSafeZeroValue dp target \<and>
      MethodByName dp' (pointerSafeZeroValue dp target) ''SetNull''
        = MethodByName dp (pointerSafeZeroValue dp target) ''SetNull'' \<longrightarrow>
      NewNullable dp' typ' val' target path = NewNullable dp typ val target path)
   \<and> \<not> (IsNull val \<and> \<not> IsKnown val)
   \<and> (\<forall>u x. GetUnknown u \<longrightarrow>
      FromUnknownable dp typ (u\<lparr>UnknownableGetValue := x\<rparr>) path = FromUnknownable dp typ u path)
   \<and> (\<forall>u res. GetUnknown u \<and>
      (\<forall>validate. Validate typ = Some validate \<longrightarrow>
         \<not> HasError (validate (TfValue (Some (TerraformType typ)) RawUnknown) path)) \<and>
      ValueFromTerraform typ (TfValue (Some (TerraformType typ)) RawUnknown) = Inr res \<longrightarrow>
      FromUnknownable dp typ u path = Return (res, []))"
  using NewUnknownable_flag[of dp target _ val _ _ "typ" path]
    NewNullable_flag[of dp target _ val _ _ "typ" path]
    NewUnknownable_reads_flag_only[of _ val _ target dp _ path "typ"]
    NewNullable_reads_flag_only[of _ val _ target dp _ path "typ"]
    null_is_known[of val]
    FromUnknownable_ignores_value[of _ dp "typ" _ path]
    FromUnknownable_unknown[of _ "typ" path _ dp]
  by blast


lemma exReceiver:
  "pointerSafeZeroValue (exDeps order) (Zero (TPtr goHooked)) = hooked False False []"
  by (simp add: exDeps_def exPointerSafeZeroValue_def hooked_def goHooked_def)

lemma exMethods:
  "MethodByName (exDeps order) (hooked u n s) ''SetUnknown'' = Some (exSetUnknown (hooked u n s))"
  "MethodByName (exDeps order) (hooked u n s) ''SetNull'' = Some (exSetNull (hooked u n s))"
  by (simp_all add: exDeps_def exMethodByName_def hooked_def goHooked_def)

theorem hooks_keep_null_and_unknown_apart_witness:
  "NewUnknownable (exDeps [''a'', ''b'']) exStringType (TfValue (Some TfString) RawUnknown)
      (Zero (TPtr goHooked)) [] = Return (hooked True False [], [])
   \<and> NewUnknownable (exDeps [''a'', ''b'']) exStringType (TfValue (Some TfString) RawNil)
      (Zero (TPtr goHooked)) [] = Return (hooked False False [], [])
   \<and> NewNullable (exDeps [''a'', ''b'']) exStringType (TfValue (Some TfString) RawNil)
      (Zero (TPtr goHooked)) [] = Return (hooked False True [], [])
   \<and> NewNullable (exDeps [''a'', ''b'']) exStringType (TfValue (Some TfString) RawUnknown)
      (Zero (TPtr goHooked)) [] = Return (hooked False False [], [])
   \<and> FromUnknownable (exDeps [''a'', ''b'']) exStringType
      \<lparr>GetUnknown = True, UnknownableGetValue = RawOther (VInt 7)\<rparr> []
      = Return (Some (AttrValue TfString (Inr RawUnknown) (Zero goString)), [])"
proof -
  let ?dp = "exDeps [''a'', ''b'']"
  let ?target = "Zero (TPtr goHooked)"
  let ?unknown = "TfValue (Some TfString) RawUnknown"
  let ?null = "TfValue (Some TfString) RawNil"
  have mu: "MethodByName ?dp (pointerSafeZeroValue ?dp ?target) ''SetUnknown''
      = Some (exSetUnknown (hooked False False []))"
    and mn: "MethodByName ?dp (pointerSafeZeroValue ?dp ?target) ''SetNull''
      = Some (exSetNull (hooked False False []))"
    unfolding exReceiver by (simp_all add: exMethods)
  have u1: "exSetUnknown (hooked False False []) [ArgBool (\<not> IsKnown ?unknown)] = (INil # [], hooked True False [])"
    and u2: "exSetUnknown (hooked False False []) [ArgBool (\<not> IsKnown ?null)] = (INil # [], hooked False False [])"
    and n1: "exSetNull (hooked False False []) [ArgBool (IsNull ?null)] = (INil # [], hooked False True [])"
    and n2: "exSetNull (hooked False False []) [ArgBool (IsNull ?unknown)] = (INil # [], hooked False False [])"
    by (simp_all add: hooked_def IsKnown_def IsNull_def)
  have a: "NewUnknownable ?dp exStringType ?unknown ?target [] = Return (hooked True False [], [])"
    using hooks_keep_null_and_unknown_apart[of ?dp ?target ?unknown exStringType "[]"] mu u1 by blast
  have b: "NewUnknownable ?dp exStringType ?null ?target [] = Return (hooked False False [], [])"
    using hooks_keep_null_and_unknown_apart[of ?dp ?target ?null exStringType "[]"] mu u2 by blast
  have c: "NewNullable ?dp exStringType ?null ?target [] = Return (hooked False True [], [])"
    using hooks_keep_null_and_unknown_apart[of ?dp ?target ?null exStringType "[]"] mn n1 by blast
  have d: "NewNullable ?dp exStringType ?unknown ?target [] = Return (hooked False False [], [])"
    using hooks_keep_null_and_unknown_apart[of ?dp ?target ?unknown exStringType "[]"] mn n2 by blast
  have g: "GetUnknown \<lparr>GetUnknown = True, UnknownableGetValue = RawOther (VInt 7)\<rparr>" by simp
  have v: "\<forall>validate. Validate exStringType = Some validate \<longrightarrow>
         \<not> HasError (validate (TfValue (Some (TerraformType exStringType)) RawUnknown) [])"
    by (simp add: exStringType_def)
  have f: "ValueFromTerraform exStringType (TfValue (Some (TerraformType exStringType)) RawUnknown)
      = Inr (Some (AttrValue TfString (Inr RawUnknown) (Zero goString)))"
    by (simp add: exStringType_def exStringFromTerraform_def)
  have e: "FromUnknownable ?dp exStringType \<lparr>GetUnknown = True, UnknownableGetValue = RawOther (VInt 7)\<rparr> []
      = Return (Some (AttrValue TfString (Inr RawUnknown) (Zero goString)), [])"
    using hooks_keep_null_and_unknown_apart[of ?dp ?target ?unknown exStringType "[]"] g v f by blast
  from a b c d e show ?thesis by blast
qed

section \<open>Properties of Map\<close>














section \<open>The target survives every error of the into-native converters\<close>

lemma HasError_AddAttributeError [simp]: "HasError (AddAttributeError ds p s d)"
  by (simp add: AddAttributeError_def)












section \<open>Properties of FromMap\<close>

lemma FromMap_loop_nonstring_key:
  "Kind keyType \<noteq> KString \<Longrightarrow>
   FromMap_loop dp typ elemType keyType path ((key, elem) # rest) tfElems diags =
     Return (Inl (None, diags @ [AttributeErrorDiagnostic path ''Value Conversion Error''
       (ProviderBug ''convert into a Terraform value'' (ErrMapKeysMustBeStrings keyType))]))"
  by (simp add: AddAttributeError_def Append_def)








lemma FromMap_nonnil:
  "ElementType typ = Some elemType \<Longrightarrow>
   FromMap dp typ (VMap kt et (Some entries)) path =
     obind (FromMap_loop dp typ elemType kt path entries Map.empty []) (\<lambda>r.
       (case r of
          Inl ret \<Rightarrow> Return ret
        | Inr (tfElems, diags) \<Rightarrow>
           (case ValidateValue (checkPayload dp) (TerraformType typ) (RawMap tfElems) of
              Some err \<Rightarrow> Return (None, diags @ [validateValueErrorDiag err path])
            | None \<Rightarrow>
               obind (NewValue (checkPayload dp) (TerraformType typ) (RawMap tfElems)) (\<lambda>tfVal.
                 (let diags' = (case Validate typ of
                                  None \<Rightarrow> diags
                                | Some validate \<Rightarrow> Append diags (validate tfVal path))
                  in if Validate typ \<noteq> None \<and> HasError diags' then Return (None, diags')
                     else (case ValueFromTerraform typ tfVal of
                             Inl err \<Rightarrow>
                               Return (None, AddAttributeError diags' path ''Value Conversion Error''
                                 (ProviderBug ''convert to map value'' err))
                           | Inr attrVal \<Rightarrow> Return (attrVal, diags')))))))"
  by (simp add: FromMap_def Let_def)

lemma FromMap_early:
  "ElementType typ = Some elemType \<Longrightarrow>
   FromMap_loop dp typ elemType kt path entries Map.empty [] = Return (Inl ret) \<Longrightarrow>
   FromMap dp typ (VMap kt et (Some entries)) path = Return ret"
  by (simp add: FromMap_nonnil)



text \<open>
  C5. When the key type of a non-nil, non-empty map is not of string kind, \<open>FromMap\<close>
  fails at the first key it meets: it returns the nil value and exactly one diagnostic,
  of error severity, at the path of the map. No element is converted: the result does
  not depend on \<open>FromValue\<close> or on any entry.
\<close>

theorem FromMap_rejects_non_string_keys:
  assumes "ElementType typ = Some elemType" and "Kind kt \<noteq> KString"
  shows "FromMap dp typ (VMap kt et (Some (entry # entries))) path =
           Return (None, [AttributeErrorDiagnostic path ''Value Conversion Error''
             (ProviderBug ''convert into a Terraform value'' (ErrMapKeysMustBeStrings kt))])
         \<and> Severity (AttributeErrorDiagnostic path ''Value Conversion Error''
             (ProviderBug ''convert into a Terraform value'' (ErrMapKeysMustBeStrings kt))) = SeverityError
         \<and> DiagPath (AttributeErrorDiagnostic path ''Value Conversion Error''
             (ProviderBug ''convert into a Terraform value'' (ErrMapKeysMustBeStrings kt))) = Some path"
proof -
  obtain key elem where e: "entry = (key, elem)" by (cases entry)
  have "FromMap_loop dp typ elemType kt path (entry # entries) Map.empty [] =
     Return (Inl (None, [] @ [AttributeErrorDiagnostic path ''Value Conversion Error''
       (ProviderBug ''convert into a Terraform value'' (ErrMapKeysMustBeStrings kt))]))"
    unfolding e using assms(2) by (rule FromMap_loop_nonstring_key)
  from FromMap_early[OF assms(1) this] show ?thesis by simp
qed

theorem FromMap_rejects_non_string_keys_witness:
  "FromMap (exDeps [''a'', ''b'']) exMapType exIntKeyedMap [AttributeName ''tags''] =
     Return (None, [AttributeErrorDiagnostic [AttributeName ''tags''] ''Value Conversion Error''
       (ProviderBug ''convert into a Terraform value'' (ErrMapKeysMustBeStrings TInt))])"
proof -
  have a: "ElementType exMapType = Some exStringType" by (simp add: exMapType_def)
  have b: "Kind TInt \<noteq> KString" by simp
  from FromMap_rejects_non_string_keys[OF a b, of "exDeps [''a'', ''b'']" TString "(VInt 1, VString ''x'')" "[]"
      "[AttributeName ''tags'']"]
  show ?thesis by (simp add: exIntKeyedMap_def)
qed



lemma exFromValue_string:
  "FromValue (exDeps order) t (VString s) p = (Some (exStringValue s), [])"
  by (simp add: exDeps_def exFromValue_def)





section \<open>Validation before materialization\<close>

lemma FromMap_loop_ignores_ValueFromTerraform:
  "FromMap_loop dp (AttrType n tt vft vd elt) elemType kt path entries tfElems diags =
   FromMap_loop dp (AttrType n tt vft' vd elt) elemType kt path entries tfElems diags"
proof (induction entries arbitrary: tfElems diags)
  case Nil
  show ?case by simp
next
  case (Cons ke entries)
  obtain key elem where ke: "ke = (key, elem)" by (cases ke)
  show ?case unfolding ke
    by (simp add: Cons.IH Let_def NewValue_def fun_upd_def split: prod.splits option.splits sum.splits
        cong: if_cong)
qed


lemma NewAttributeValue_validation_error:
  "HasError (validate val path) \<Longrightarrow>
   NewAttributeValue dp (AttrType n tt vft (Some validate) elt) val target path =
     Return (target, validate val path)"
  by (simp add: NewAttributeValue_def)

lemma NewAttributeValue_runs_validate_first:
  "\<exists>v rest. NewAttributeValue dp (AttrType n tt vft (Some validate) elt) val target path =
     Return (v, validate val path @ rest)"
proof (cases "HasError (validate val path)")
  case True
  then show ?thesis by (simp add: NewAttributeValue_def)
next
  case False
  show ?thesis
  proof (cases "vft val")
    case (Inl err)
    then show ?thesis using False by (simp add: NewAttributeValue_def)
  next
    case (Inr res)
    show ?thesis
    proof (cases res)
      case None
      then show ?thesis using False Inr by (simp add: NewAttributeValue_def reflectTypeOf_def Append_def)
    next
      case (Some r)
      then show ?thesis using False Inr by (auto simp: NewAttributeValue_def Append_def Let_def)
    qed
  qed
qed

lemma FromMap_nil_validation_error:
  "IsNil mv = Return True \<Longrightarrow> HasError (validate (TfValue (Some tt) RawNil) path) \<Longrightarrow>
   FromMap dp (AttrType n tt vft (Some validate) elt) mv path =
     Return (None, validate (TfValue (Some tt) RawNil) path)"
  by (simp add: FromMap_def)

lemma FromMap_final_validation_error:
  assumes "FromMap_loop dp (AttrType n tt vft (Some validate) (Some elemType)) elemType kt path entries
             Map.empty [] = Return (Inr (tfElems, diags))"
    and "ValidateValue (checkPayload dp) tt (RawMap tfElems) = None"
    and "HasError (validate (TfValue (Some tt) (RawMap tfElems)) path)"
  shows "FromMap dp (AttrType n tt vft (Some validate) (Some elemType)) (VMap kt et (Some entries)) path =
     Return (None, diags @ validate (TfValue (Some tt) (RawMap tfElems)) path)"
  using assms by (simp add: FromMap_nonnil NewValue_valid Append_def)

text \<open>
  C6. For a Type with the validate hook, \<open>NewAttributeValue\<close> runs the hook on the raw
  value first: the diagnostics of the hook open the diagnostics it returns. When
  they hold an error, \<open>NewAttributeValue\<close> returns the unchanged target and \<open>FromMap\<close>
  (for a nil map, and for the assembled map after the loop) returns the nil value, in
  each case with a result in which \<open>ValueFromTerraform\<close> of the Type has no part:
  it is the same for every \<open>ValueFromTerraform\<close>, and so is the loop of \<open>FromMap\<close>.
\<close>

theorem validate_short_circuits:
  "(\<forall>vft. HasError (validate val path) \<longrightarrow>
      NewAttributeValue dp (AttrType n tt vft (Some validate) elt) val target path =
        Return (target, validate val path))
   \<and> (\<forall>vft. \<exists>v rest.
      NewAttributeValue dp (AttrType n tt vft (Some validate) elt) val target path =
        Return (v, validate val path @ rest))
   \<and> (\<forall>vft. IsNil mv = Return True \<and> HasError (validate (TfValue (Some tt) RawNil) path) \<longrightarrow>
      FromMap dp (AttrType n tt vft (Some validate) elt) mv path =
        Return (None, validate (TfValue (Some tt) RawNil) path))
   \<and> (\<forall>vft vft' elemType kt entries tfElems diags.
      FromMap_loop dp (AttrType n tt vft (Some validate) elt) elemType kt path entries tfElems diags =
      FromMap_loop dp (AttrType n tt vft' (Some validate) elt) elemType kt path entries tfElems diags)
   \<and> (\<forall>vft elemType kt et entries tfElems diags.
      elt = Some elemType \<and>
      FromMap_loop dp (AttrType n tt vft (Some validate) elt) elemType kt path entries
        Map.empty [] = Return (Inr (tfElems, diags)) \<and>
      ValidateValue (checkPayload dp) tt (RawMap tfElems) = None \<and>
      HasError (validate (TfValue (Some tt) (RawMap tfElems)) path) \<longrightarrow>
      FromMap dp (AttrType n tt vft (Some validate) elt) (VMap kt et (Some entries)) path =
        Return (None, diags @ validate (TfValue (Some tt) (RawMap tfElems)) path))"
proof (intro conjI allI impI)
  fix vft
  assume "HasError (validate val path)"
  then show "NewAttributeValue dp (AttrType n tt vft (Some validate) elt) val target path =
        Return (target, validate val path)"
    by (rule NewAttributeValue_validation_error)
next
  fix vft
  show "\<exists>v rest. NewAttributeValue dp (AttrType n tt vft (Some validate) elt) val target path =
        Return (v, validate val path @ rest)"
    by (rule NewAttributeValue_runs_validate_first)
next
  fix vft
  assume "IsNil mv = Return True \<and> HasError (validate (TfValue (Some tt) RawNil) path)"
  then show "FromMap dp (AttrType n tt vft (Some validate) elt) mv path =
        Return (None, validate (TfValue (Some tt) RawNil) path)"
    by (simp add: FromMap_nil_validation_error)
next
  fix vft vft' elemType kt entries tfElems diags
  show "FromMap_loop dp (AttrType n tt vft (Some validate) elt) elemType kt path entries tfElems diags =
      FromMap_loop dp (AttrType n tt vft' (Some validate) elt) elemType kt path entries tfElems diags"
    by (rule FromMap_loop_ignores_ValueFromTerraform)
next
  fix vft elemType kt et entries tfElems diags
  assume h: "elt = Some elemType \<and>
      FromMap_loop dp (AttrType n tt vft (Some validate) elt) elemType kt path entries
        Map.empty [] = Return (Inr (tfElems, diags)) \<and>
      ValidateValue (checkPayload dp) tt (RawMap tfElems) = None \<and>
      HasError (validate (TfValue (Some tt) (RawMap tfElems)) path)"
  then have e: "elt = Some elemType"
    and l: "FromMap_loop dp (AttrType n tt vft (Some validate) (Some elemType)) elemType kt path entries
        Map.empty [] = Return (Inr (tfElems, diags))"
    and v: "ValidateValue (checkPayload dp) tt (RawMap tfElems) = None"
    and x: "HasError (validate (TfValue (Some tt) (RawMap tfElems)) path)"
    by auto
  show "FromMap dp (AttrType n tt vft (Some validate) elt) (VMap kt et (Some entries)) path =
        Return (None, diags @ validate (TfValue (Some tt) (RawMap tfElems)) path)"
    unfolding e using l v x by (rule FromMap_final_validation_error)
qed

theorem validate_short_circuits_witness:
  "NewAttributeValue (exDeps [''a'', ''b'']) exValidatedType (TfValue (Some TfString) (RawString ''bad''))
       (VString ''t'') [AttributeName ''name'']
     = Return (VString ''t'', [Diag SeverityError ''Invalid value'' ''bad'' (Some [AttributeName ''name''])])
   \<and> FromMap (exDeps [''a'', ''b'']) exValidatedMapType (VMap TString TString None) []
     = Return (None, [Diag SeverityError ''Null map'' ''null'' (Some [])])
   \<and> FromMap (exDeps [''a'', ''b'']) exValidatedMapType exBadKeyMap []
     = Return (None, [Diag SeverityError ''Bad key'' ''bad'' (Some [])])"
proof -
  let ?dp = "exDeps [''a'', ''b'']"
  let ?bad = "TfValue (Some TfString) (RawString ''bad'')"
  let ?p = "[AttributeName ''name'']"
  have e1: "HasError (exValidate ?bad ?p)" by (simp add: exValidate_def)
  from validate_short_circuits[of exValidate ?bad ?p ?dp "''testtypes.StringTypeWithValidate''" TfString
      None "VString ''t''" "VMap TString TString None",
      THEN conjunct1, rule_format, of exStringFromTerraform, OF e1]
  have a: "NewAttributeValue ?dp exValidatedType ?bad (VString ''t'') ?p
     = Return (VString ''t'', [Diag SeverityError ''Invalid value'' ''bad'' (Some ?p)])"
    by (simp add: exValidatedType_def exValidate_def)
  note th = validate_short_circuits[of exMapValidate ?bad "[]" ?dp "''testtypes.MapTypeWithValidate''"
      "TfMap TfString" "Some exStringType" "VString ''t''" "VMap TString TString None"]
  have e2: "IsNil (VMap TString TString None) = Return True \<and>
      HasError (exMapValidate (TfValue (Some (TfMap TfString)) RawNil) [])"
    by (simp add: exMapValidate_def)
  from th[THEN conjunct2, THEN conjunct2, THEN conjunct1, rule_format, of exMapFromTerraform, OF e2]
  have b: "FromMap ?dp exValidatedMapType (VMap TString TString None) []
     = Return (None, [Diag SeverityError ''Null map'' ''null'' (Some [])])"
    by (simp add: exValidatedMapType_def exMapValidate_def)
  let ?elems = "[''bad'' \<mapsto> TfValue (Some TfString) (RawString ''x'')]"
  have e3: "Some exStringType = Some exStringType \<and>
      FromMap_loop ?dp (AttrType ''testtypes.MapTypeWithValidate'' (TfMap TfString) exMapFromTerraform
          (Some exMapValidate) (Some exStringType)) exStringType TString []
        [(VString ''bad'', VString ''x'')] Map.empty [] = Return (Inr (?elems, [])) \<and>
      ValidateValue (checkPayload ?dp) (TfMap TfString) (RawMap ?elems) = None \<and>
      HasError (exMapValidate (TfValue (Some (TfMap TfString)) (RawMap ?elems)) [])"
    by (simp add: exFromValue_def exStringValue_def exStringType_def exMapValidate_def
        ValidateValue_def NewValue_def exDeps_def Let_def WithElementKeyString_def)
  from th[THEN conjunct2, THEN conjunct2, THEN conjunct2, THEN conjunct2, rule_format,
      of exStringType exMapFromTerraform TString "[(VString ''bad'', VString ''x'')]" ?elems "[]" TString,
      OF e3]
  have c: "FromMap ?dp exValidatedMapType exBadKeyMap []
     = Return (None, [Diag SeverityError ''Bad key'' ''bad'' (Some [])])"
    by (simp add: exValidatedMapType_def exMapValidate_def exBadKeyMap_def)
  from a b c show ?thesis by simp
qed

end
